theory Spec2Isabelle
  imports Complex_Main "HOL-Library.Log_Nat"
begin

section \<open>Text helpers of the Python runtime\<close>

text \<open>
  A character is a code point below 256, that is ASCII and Latin-1, and a string is a
  list of such characters; text with other code points is outside this type. White space
  is what \<open>str.isspace\<close> accepts below 256: the codes 9 to 13, 28 to 32, 133 and 160.
\<close>

definition is_space :: "char \<Rightarrow> bool" where
  "is_space c = (c \<in> set [CHR 0x09, CHR 0x0A, CHR 0x0B, CHR 0x0C, CHR 0x0D,
                             CHR 0x1C, CHR 0x1D, CHR 0x1E, CHR 0x1F, CHR 0x20,
                             CHR 0x85, CHR 0xA0])"

text \<open>
  The letters that \<open>str.lower\<close> and \<open>str.upper\<close> exchange below 256: the 26 ASCII
  letters and the Latin-1 letters 192 to 222 (without the sign 215) against 224 to 254
  (without the sign 247).
\<close>

definition capitals :: string where
  "capitals = ''ABCDEFGHIJKLMNOPQRSTUVWXYZ'' @
     [CHR 0xC0, CHR 0xC1, CHR 0xC2, CHR 0xC3, CHR 0xC4, CHR 0xC5, CHR 0xC6, CHR 0xC7, CHR 0xC8, CHR 0xC9, CHR 0xCA, CHR 0xCB,
      CHR 0xCC, CHR 0xCD, CHR 0xCE, CHR 0xCF, CHR 0xD0, CHR 0xD1, CHR 0xD2, CHR 0xD3, CHR 0xD4, CHR 0xD5, CHR 0xD6, CHR 0xD8,
      CHR 0xD9, CHR 0xDA, CHR 0xDB, CHR 0xDC, CHR 0xDD, CHR 0xDE]"

definition smalls :: string where
  "smalls = ''abcdefghijklmnopqrstuvwxyz'' @
     [CHR 0xE0, CHR 0xE1, CHR 0xE2, CHR 0xE3, CHR 0xE4, CHR 0xE5, CHR 0xE6, CHR 0xE7, CHR 0xE8, CHR 0xE9, CHR 0xEA, CHR 0xEB,
      CHR 0xEC, CHR 0xED, CHR 0xEE, CHR 0xEF, CHR 0xF0, CHR 0xF1, CHR 0xF2, CHR 0xF3, CHR 0xF4, CHR 0xF5, CHR 0xF6, CHR 0xF8,
      CHR 0xF9, CHR 0xFA, CHR 0xFB, CHR 0xFC, CHR 0xFD, CHR 0xFE]"

definition lower_char :: "char \<Rightarrow> char" where
  "lower_char c = (case map_of (zip capitals smalls) c of Some l \<Rightarrow> l | None \<Rightarrow> c)"

definition upper_char :: "char \<Rightarrow> char" where
  "upper_char c = (case map_of (zip smalls capitals) c of Some u \<Rightarrow> u | None \<Rightarrow> c)"

definition lower :: "string \<Rightarrow> string" where
  "lower s = map lower_char s"

text \<open>
  \<open>str.upper\<close> writes the sharp s (223) as \<open>SS\<close>. The capitals of the letters 181 and
  255 are the code points 924 and 376, which this type does not have: the two letters
  are left as they are, which no comparison with ASCII text can tell apart, and the
  theorem on stored names excludes them.
\<close>

definition upper :: "string \<Rightarrow> string" where
  "upper s = concat (map (\<lambda>c. if c = CHR 0xDF then ''SS'' else [upper_char c]) s)"

text \<open>SQLite's \<open>UPPER\<close> changes the 26 ASCII letters only.\<close>

definition sqlite_upper_char :: "char \<Rightarrow> char" where
  "sqlite_upper_char c =
     (case map_of (zip ''abcdefghijklmnopqrstuvwxyz'' ''ABCDEFGHIJKLMNOPQRSTUVWXYZ'') c of
        Some u \<Rightarrow> u | None \<Rightarrow> c)"

definition sqlite_upper :: "string \<Rightarrow> string" where
  "sqlite_upper s = map sqlite_upper_char s"

definition strip :: "string \<Rightarrow> string" where
  "strip s = rev (dropWhile is_space (rev (dropWhile is_space s)))"

text \<open>\<open>s.split()\<close>: the maximal runs of non-space characters, in order.\<close>

fun split_ws :: "string \<Rightarrow> string \<Rightarrow> string list" where
  "split_ws cur [] = (if cur = [] then [] else [cur])"
| "split_ws cur (c # cs) =
     (if is_space c then (if cur = [] then split_ws [] cs else cur # split_ws [] cs)
      else split_ws (cur @ [c]) cs)"

definition split :: "string \<Rightarrow> string list" where
  "split s = split_ws [] s"

text \<open>\<open>sep.join(parts)\<close>.\<close>

fun join :: "string \<Rightarrow> string list \<Rightarrow> string" where
  "join sep [] = []"
| "join sep [p] = p"
| "join sep (p # q # ps) = p @ sep @ join sep (q # ps)"


text \<open>\<open>str(i)\<close> for an integer.\<close>

fun nat_digits :: "nat \<Rightarrow> string" where
  "nat_digits n =
     (if n < 10 then [''0123456789'' ! n]
      else nat_digits (n div 10) @ [''0123456789'' ! (n mod 10)])"

definition str_int :: "int \<Rightarrow> string" where
  "str_int i = (if i < 0 then CHR ''-'' # nat_digits (nat (- i)) else nat_digits (nat i))"

section \<open>Python exceptions\<close>

text \<open>
  The exceptions the two scripts can raise in the parts modelled here. \<open>ValueError\<close>
  and \<open>AttributeError\<close> carry their message, \<open>KeyError\<close> the column labels that the
  frame does not have. The message of the \<open>TypeError\<close> of a failed cast names the type
  of the column, which is not modelled. \<open>OtherError\<close> stands for any exception of
  \<open>pandas.read_csv\<close> that is not a \<open>UnicodeDecodeError\<close> (a missing file, an empty
  file, a parser error).
\<close>

datatype error =
    ValueError string
  | TypeError
  | KeyError "string list"
  | AttributeError string
  | UnicodeDecodeError
  | OtherError string

section \<open>\<open>repr\<close> of strings and lists of strings\<close>

text \<open>
  \<open>repr(str)\<close>: single quotes unless the text has a single quote and no double
  quote; backslash, the chosen quote, tab, newline and carriage return are escaped, and
  the other characters that are not printable (the codes below 32, 127 to 160, and 173)
  are written \<open>\xNN\<close>.
\<close>

definition hex_digit :: "nat \<Rightarrow> char" where
  "hex_digit n = (''0123456789abcdef'' ! (n mod 16))"

definition repr_char :: "char \<Rightarrow> char \<Rightarrow> string" where
  "repr_char quote c =
     (if c = CHR 0x5C then [CHR 0x5C, CHR 0x5C]
      else if c = quote then [CHR 0x5C, quote]
      else if c = CHR 0x09 then [CHR 0x5C, CHR ''t'']
      else if c = CHR 0x0A then [CHR 0x5C, CHR ''n'']
      else if c = CHR 0x0D then [CHR 0x5C, CHR ''r'']
      else if (of_char c :: nat) < 32 \<or> (127 \<le> (of_char c :: nat) \<and> (of_char c :: nat) \<le> 160)
              \<or> c = CHR 0xAD
        then [CHR 0x5C, CHR ''x'', hex_digit (of_char c div 16), hex_digit (of_char c)]
      else [c])"

definition repr_str :: "string \<Rightarrow> string" where
  "repr_str s =
     (let quote = (if CHR 0x27 \<in> set s \<and> CHR 0x22 \<notin> set s then CHR 0x22 else CHR 0x27)
      in [quote] @ concat (map (repr_char quote) s) @ [quote])"

definition repr_list :: "string list \<Rightarrow> string" where
  "repr_list xs = ''['' @ join '', '' (map repr_str xs) @ '']''"

section \<open>Run configuration\<close>

text \<open>
  \<open>int(text)\<close> for a decimal literal. The white space that \<open>int\<close> drops at both ends
  is the codes 9 to 13 and 32, and the white space above 127 (133 and 160); one sign is
  allowed, single underscores may separate digits, and a literal of more than 4300 digits
  is refused.
\<close>

definition is_int_space :: "char \<Rightarrow> bool" where
  "is_int_space c = (c \<in> set [CHR 0x09, CHR 0x0A, CHR 0x0B, CHR 0x0C, CHR 0x0D, CHR 0x20,
                                 CHR 0x85, CHR 0xA0])"

definition strip_int :: "string \<Rightarrow> string" where
  "strip_int s = rev (dropWhile is_int_space (rev (dropWhile is_int_space s)))"

definition is_digit :: "char \<Rightarrow> bool" where
  "is_digit c = (c \<in> set ''0123456789'')"

definition digit_val :: "char \<Rightarrow> int" where
  "digit_val c =
     (case map_of (zip ''0123456789'' [0, 1, 2, 3, 4, 5, 6, 7, 8, 9]) c of
        Some d \<Rightarrow> d | None \<Rightarrow> 0)"

fun digits_ok :: "string \<Rightarrow> bool" where
  "digits_ok [] = False"
| "digits_ok [c] = is_digit c"
| "digits_ok (c # d # cs) =
     (if is_digit c then (if d = CHR ''_'' then digits_ok cs else digits_ok (d # cs)) else False)"

definition digits_value :: "string \<Rightarrow> int" where
  "digits_value body = fold (\<lambda>c n. 10 * n + digit_val c) (filter is_digit body) 0"

definition py_int :: "string \<Rightarrow> error + int" where
  "py_int s =
     (let t = strip_int s;
          (sign, body) = (case t of
                            c # b \<Rightarrow> (if c = CHR ''-'' then (- 1, b)
                                       else if c = CHR ''+'' then (1, b) else (1, t))
                          | [] \<Rightarrow> (1, t))
      in if \<not> digits_ok body
         then Inl (ValueError (''invalid literal for int() with base 10: '' @ repr_str s))
         else if 4300 < length (filter is_digit body)
         then Inl (ValueError (''Exceeds the limit (4300 digits) for integer string conversion: ''
                     @ ''value has '' @ str_int (int (length (filter is_digit body)))
                     @ '' digits; use sys.set_int_max_str_digits() to increase the limit''))
         else Inr (sign * digits_value body))"

text \<open>\<open>os.getenv(name, default)\<close>: the variable's text, or the default when it is unset.\<close>

definition getenv :: "string option \<Rightarrow> string \<Rightarrow> string" where
  "getenv var dflt = (case var of Some v \<Rightarrow> v | None \<Rightarrow> dflt)"

text \<open>
  \<open>SLA_HOURS = int(os.getenv("SLA_HOURS", "72"))\<close> of \<open>pipeline_etl.py\<close>; the argument
  is the value of the environment variable. \<open>pipeline_elt.py\<close> reads no such variable.
\<close>

definition SLA_HOURS :: "string option \<Rightarrow> error + int" where
  "SLA_HOURS env_sla_hours = py_int (getenv env_sla_hours ''72'')"

definition ROW_LIMIT :: "string option \<Rightarrow> error + int" where
  "ROW_LIMIT env_row_limit = py_int (getenv env_row_limit ''10000'')"

section \<open>Reference tables\<close>

text \<open>
  A data frame is its header and its rows. A cell is missing (\<open>NaN\<close>), an integer, a
  float or text; a float is its exact value or one of the two infinities. The two
  conversions that pandas does on cells and that are not written out here are
  parameters: \<open>to_numeric_text\<close> is the number that \<open>pandas.to_numeric\<close> reads from a
  text (\<open>None\<close> when it reads none), and \<open>str_float\<close> is \<open>str\<close> of a float.
\<close>

datatype number = Finite rat | PlusInfinity | MinusInfinity

datatype cell = NaN | IntCell int | FloatCell number | Str string

record dataframe =
  columns :: "string list"
  data :: "cell list list"

record pandas =
  to_numeric_text :: "string \<Rightarrow> number option"
  str_float :: "number \<Rightarrow> string"

datatype csv_sep = Comma | Semicolon

datatype encoding = Utf8 | Latin1

text \<open>
  \<open>_robust_read_csv_local\<close>. The argument \<open>read_csv\<close> is \<open>pandas.read_csv\<close> on the
  files of the run, called with a path, a separator (the semicolon call also selects the
  Python engine) and an encoding. An exception raised inside the \<open>try\<close> block is caught
  only when it is a \<open>UnicodeDecodeError\<close>; one raised in the handler propagates.
\<close>

definition read_retry_semicolon ::
  "(string \<Rightarrow> csv_sep \<Rightarrow> encoding \<Rightarrow> error + dataframe) \<Rightarrow> string \<Rightarrow> encoding \<Rightarrow> error + dataframe" where
  "read_retry_semicolon read_csv path enc =
     (case read_csv path Comma enc of
        Inl e \<Rightarrow> Inl e
      | Inr df \<Rightarrow> if length (columns df) = 1 then read_csv path Semicolon enc else Inr df)"

definition robust_read_csv_local ::
  "(string \<Rightarrow> csv_sep \<Rightarrow> encoding \<Rightarrow> error + dataframe) \<Rightarrow> string \<Rightarrow> error + dataframe" where
  "robust_read_csv_local read_csv path =
     (case read_retry_semicolon read_csv path Utf8 of
        Inl UnicodeDecodeError \<Rightarrow> read_retry_semicolon read_csv path Latin1
      | Inl e \<Rightarrow> Inl e
      | Inr df \<Rightarrow> Inr df)"

text \<open>\<open>_norm\<close>: trim, lower-case, and join the white-space separated words by one space.\<close>

definition norm_col :: "string \<Rightarrow> string" where
  "norm_col s = join '' '' (split (lower (strip s)))"

text \<open>\<open>{_norm(c): c for c in cols}\<close>: a later header replaces an earlier one with the same key.\<close>

definition lookup_of :: "string list \<Rightarrow> (string \<rightharpoonup> string)" where
  "lookup_of cols = fold (\<lambda>c m. m(norm_col c \<mapsto> c)) cols Map.empty"

definition id_aliases :: "string list" where
  "id_aliases = [''area_numbe'', ''area numbe'', ''area_num'', ''area num'', ''area_num_1'',
                 ''area num 1'', ''community area number'', ''community area num'',
                 ''community_area_number'']"

definition name_aliases :: "string list" where
  "name_aliases = [''community'', ''community area'', ''community_area_name'',
                   ''community area name'', ''name'']"

text \<open>The two \<open>for key in (...)\<close> loops: the first key found in the lookup ends the loop.\<close>

fun first_alias :: "string list \<Rightarrow> (string \<rightharpoonup> string) \<Rightarrow> string option" where
  "first_alias [] lookup = None"
| "first_alias (key # keys) lookup =
     (case lookup key of Some c \<Rightarrow> Some c | None \<Rightarrow> first_alias keys lookup)"

text \<open>\<open>not x\<close> for a value that is \<open>None\<close> or a string.\<close>

definition py_not :: "string option \<Rightarrow> bool" where
  "py_not x = (case x of None \<Rightarrow> True | Some s \<Rightarrow> s = [])"

definition resolution_message :: "string list \<Rightarrow> string" where
  "resolution_message cols =
     ''Konnte Mapping-Spalten nicht erkennen.'' @ [CHR 0x0A] @
     ''Vorhandene Spalten: '' @ repr_list cols @ [CHR 0x0A] @
     ''Erwartet etwas wie 'AREA_NUMBE' (ID) und 'COMMUNITY' (Name).''"

text \<open>Lines 75 to 96 of \<open>extract_acs_and_mapping\<close>: the code column and the name column.\<close>

definition resolve_columns :: "string list \<Rightarrow> error + (string \<times> string)" where
  "resolve_columns cols =
     (let lookup = lookup_of cols;
          id_col = first_alias id_aliases lookup;
          name_col = first_alias name_aliases lookup
      in if py_not id_col \<or> py_not name_col then Inl (ValueError (resolution_message cols))
         else (case (id_col, name_col) of
                 (Some i, Some n) \<Rightarrow> Inr (i, n)
               | _ \<Rightarrow> Inl (ValueError (resolution_message cols))))"

text \<open>\<open>df[name]\<close> in one row: the cell under the first header of that name.\<close>

definition cell_of :: "string list \<Rightarrow> cell list \<Rightarrow> string \<Rightarrow> cell" where
  "cell_of cols row name = (case map_of (zip cols row) name of Some v \<Rightarrow> v | None \<Rightarrow> NaN)"

text \<open>\<open>pd.to_numeric(..., errors="coerce")\<close> on one cell.\<close>

definition to_numeric :: "pandas \<Rightarrow> cell \<Rightarrow> number option" where
  "to_numeric pd v =
     (case v of NaN \<Rightarrow> None | IntCell i \<Rightarrow> Some (Finite (of_int i)) | FloatCell x \<Rightarrow> Some x
      | Str s \<Rightarrow> to_numeric_text pd s)"

text \<open>
  The integer that the cast to \<open>Int64\<close> makes of a number: the number itself when it is
  whole and lies between \<open>-2^63\<close> and \<open>2^63 - 1\<close>, and none otherwise.
\<close>

definition int64_value :: "number \<Rightarrow> int option" where
  "int64_value x =
     (case x of
        Finite q \<Rightarrow>
          (if of_int \<lfloor>q\<rfloor> = q \<and> - 9223372036854775808 \<le> q \<and> q < 9223372036854775808
           then Some \<lfloor>q\<rfloor> else None)
      | PlusInfinity \<Rightarrow> None
      | MinusInfinity \<Rightarrow> None)"

text \<open>
  \<open>.astype("Int64")\<close> on a numeric column: a missing value stays missing, and one value
  without an \<open>Int64\<close> integer makes the cast raise for the whole column.
\<close>

definition castable :: "number option \<Rightarrow> bool" where
  "castable v = (case v of None \<Rightarrow> True | Some x \<Rightarrow> int64_value x \<noteq> None)"

definition astype_Int64 :: "number option list \<Rightarrow> error + int option list" where
  "astype_Int64 vs =
     (if list_all castable vs
      then Inr (map (\<lambda>v. case v of None \<Rightarrow> None | Some x \<Rightarrow> int64_value x) vs)
      else Inl TypeError)"

text \<open>\<open>.astype(str)\<close> on one cell.\<close>

definition astype_str :: "pandas \<Rightarrow> cell \<Rightarrow> string" where
  "astype_str pd v =
     (case v of NaN \<Rightarrow> ''nan'' | IntCell i \<Rightarrow> str_int i | FloatCell q \<Rightarrow> str_float pd q
      | Str s \<Rightarrow> s)"

text \<open>\<open>.astype(str).str.strip().str.upper()\<close> on one cell.\<close>

definition normalise_name :: "pandas \<Rightarrow> cell \<Rightarrow> string" where
  "normalise_name pd v = upper (strip (astype_str pd v))"

text \<open>
  Lines 98 to 106: the two resolved columns of the mapping become the rows of \<open>df_map\<close>,
  a nullable integer code and a name.
\<close>

definition normalise_map :: "pandas \<Rightarrow> (cell \<times> cell) list \<Rightarrow> error + (int option \<times> string) list" where
  "normalise_map pd pairs =
     (case astype_Int64 (map (\<lambda>p. to_numeric pd (fst p)) pairs) of
        Inl e \<Rightarrow> Inl e
      | Inr codes \<Rightarrow> Inr (zip codes (map (\<lambda>p. normalise_name pd (snd p)) pairs)))"

text \<open>
  The four columns of \<open>acs_small\<close> after the renaming. Its name is normalised as the
  name of the mapping is; its area code is the cell as read, which nothing converts.
\<close>

record acs_row =
  acs_community_area_int :: cell
  acs_community_area_name :: string
  per_capita_income :: cell
  hardship_index :: cell

definition acs_columns :: "string list" where
  "acs_columns = [''Community Area Number'', ''COMMUNITY AREA NAME'', ''PER CAPITA INCOME '',
                  ''HARDSHIP INDEX'']"

definition select_acs :: "pandas \<Rightarrow> dataframe \<Rightarrow> error + acs_row list" where
  "select_acs pd acs =
     (case filter (\<lambda>c. c \<notin> set (columns acs)) acs_columns of
        [] \<Rightarrow> Inr (map (\<lambda>row.
                 \<lparr> acs_community_area_int = cell_of (columns acs) row ''Community Area Number'',
                   acs_community_area_name =
                     normalise_name pd (cell_of (columns acs) row ''COMMUNITY AREA NAME''),
                   per_capita_income = cell_of (columns acs) row ''PER CAPITA INCOME '',
                   hardship_index = cell_of (columns acs) row ''HARDSHIP INDEX'' \<rparr>) (data acs))
      | missing \<Rightarrow> Inl (KeyError missing))"

text \<open>
  \<open>extract_acs_and_mapping\<close>: read both files, take the four demographic columns, resolve
  the two mapping columns, normalise. The first exception ends the function.
\<close>

definition extract_acs_and_mapping ::
  "pandas \<Rightarrow> (string \<Rightarrow> csv_sep \<Rightarrow> encoding \<Rightarrow> error + dataframe) \<Rightarrow> string \<Rightarrow> string
     \<Rightarrow> error + (acs_row list \<times> (int option \<times> string) list)" where
  "extract_acs_and_mapping pd read_csv ACS_PATH MAP_PATH =
     (case robust_read_csv_local read_csv ACS_PATH of
        Inl e \<Rightarrow> Inl e
      | Inr acs \<Rightarrow>
     (case robust_read_csv_local read_csv MAP_PATH of
        Inl e \<Rightarrow> Inl e
      | Inr mapping \<Rightarrow>
     (case select_acs pd acs of
        Inl e \<Rightarrow> Inl e
      | Inr acs_small \<Rightarrow>
     (case resolve_columns (columns mapping) of
        Inl e \<Rightarrow> Inl e
      | Inr (id_col, name_col) \<Rightarrow>
     (case normalise_map pd
             (map (\<lambda>row. (cell_of (columns mapping) row id_col,
                          cell_of (columns mapping) row name_col)) (data mapping)) of
        Inl e \<Rightarrow> Inl e
      | Inr df_map \<Rightarrow> Inr (acs_small, df_map))))))"

section \<open>Request rows\<close>

text \<open>
  A pandas \<open>Timestamp\<close> is a count of nanoseconds since the epoch; \<open>None\<close> is a missing
  cell (\<open>NaN\<close>, \<open>NaT\<close>, SQL \<open>NULL\<close>). The ELT script stores the date columns as text
  \<open>%Y-%m-%d %H:%M:%S\<close> before staging; such a text is identified with the whole second
  it denotes (seconds since the epoch). A real number of either library is a rational:
  SQLite's results are rounded to binary doubles as below, and the hours that pandas
  computes are the exact quotient.
\<close>

type_synonym timestamp = int

datatype datetime_text = DatetimeText int

record 'ts request =
  sr_number :: "string option"
  sr_type :: "string option"
  owner_department :: "string option"
  status :: "string option"
  created_date :: "'ts option"
  closed_date :: "'ts option"
  ward :: "int option"
  community_area :: "int option"

text \<open>
  The KPI columns that \<open>transform_311\<close> adds to the frame and that the view
  \<open>fact_requests_v\<close> selects. The calendar split columns of the ETL script are left out.
\<close>

record 'ts fact_request = "'ts request" +
  resolution_time_h :: "rat option"
  sla_target_h :: int
  sla_met :: int
  open_flag :: int

section \<open>KPI derivation in application code (\<open>pipeline_etl.py\<close>)\<close>

text \<open>The element-wise pandas operations that \<open>transform_311\<close> uses.\<close>

definition str_upper :: "string option \<Rightarrow> string option" where
  "str_upper s = map_option upper s"

definition ne :: "string option \<Rightarrow> string \<Rightarrow> bool" where
  "ne s t = (case s of None \<Rightarrow> True | Some u \<Rightarrow> u \<noteq> t)"

definition eq :: "string option \<Rightarrow> string \<Rightarrow> bool" where
  "eq s t = (case s of None \<Rightarrow> False | Some u \<Rightarrow> u = t)"

definition le :: "rat option \<Rightarrow> int \<Rightarrow> bool" where
  "le x n = (case x of None \<Rightarrow> False | Some h \<Rightarrow> h \<le> of_int n)"

definition astype_int :: "bool \<Rightarrow> int" where
  "astype_int b = (if b then 1 else 0)"

text \<open>\<open>(closed - created).dt.total_seconds() / 3600\<close>; \<open>NaT\<close> on either side gives \<open>NaN\<close>.\<close>

definition hours_between :: "timestamp option \<Rightarrow> timestamp option \<Rightarrow> rat option" where
  "hours_between closed_ts created_ts =
     (case (closed_ts, created_ts) of
        (Some t_closed, Some t_created) \<Rightarrow>
          Some (of_int (t_closed - t_created) / 1000000000 / 3600)
      | _ \<Rightarrow> None)"

definition transform_311_row :: "int \<Rightarrow> timestamp request \<Rightarrow> timestamp fact_request" where
  "transform_311_row sla_hours r =
     (let res = hours_between (closed_date r) (created_date r) in
      \<lparr> sr_number = sr_number r, sr_type = sr_type r,
        owner_department = owner_department r, status = status r,
        created_date = created_date r, closed_date = closed_date r,
        ward = ward r, community_area = community_area r,
        resolution_time_h = res,
        sla_target_h = sla_hours,
        sla_met = astype_int (eq (str_upper (status r)) ''COMPLETED'' \<and> le res sla_hours),
        open_flag = astype_int (ne (str_upper (status r)) ''COMPLETED'') \<rparr>)"

text \<open>
  \<open>transform_311\<close> on the frame. A status column of a frame with rows in which no cell
  is text is not a column of strings, and \<open>df["status"].str\<close> raises.
\<close>

definition transform_311 :: "timestamp request list \<Rightarrow> int \<Rightarrow> error + timestamp fact_request list" where
  "transform_311 df sla_hours =
     (if df \<noteq> [] \<and> list_all (\<lambda>r. status r = None) df
      then Inl (AttributeError ''Can only use .str accessor with string values!'')
      else Inr (map (transform_311_row sla_hours) df))"

section \<open>KPI derivation in SQL (\<open>pipeline_elt.py\<close>)\<close>

text \<open>\<open>dt.strftime("%Y-%m-%d %H:%M:%S")\<close> drops the fraction of the second.\<close>

definition strftime :: "timestamp \<Rightarrow> datetime_text" where
  "strftime t = DatetimeText (t div 1000000000)"

text \<open>The date conversion at the end of \<open>extract_311\<close> of the ELT script, row by row.\<close>

definition extract_311_row :: "timestamp request \<Rightarrow> datetime_text request" where
  "extract_311_row r =
     \<lparr> sr_number = sr_number r, sr_type = sr_type r,
       owner_department = owner_department r, status = status r,
       created_date = map_option strftime (created_date r),
       closed_date = map_option strftime (closed_date r),
       ward = ward r, community_area = community_area r \<rparr>"

text \<open>
  SQL values are \<open>NULL\<close> (\<open>None\<close>) or a value; a truth value is \<open>NULL\<close>, true or false.
  \<open>CASE WHEN c THEN a ELSE b END\<close> takes the \<open>THEN\<close> branch only when \<open>c\<close> is true.
\<close>

definition UPPER :: "string option \<Rightarrow> string option" where
  "UPPER s = map_option sqlite_upper s"

text \<open>
  A real number of SQLite is a binary double. \<open>round64\<close> is the double nearest to a
  rational, ties to the even significand: 53 significant bits, and steps of \<open>2^-1074\<close>
  below the normal range. Overflow is left out, which no date comes near.
\<close>

definition round_half_even :: "rat \<Rightarrow> int" where
  "round_half_even y =
     (let f = \<lfloor>y\<rfloor>; r = y - of_int f
      in if r < 1 / 2 then f else if 1 / 2 < r then f + 1 else if even f then f else f + 1)"

text \<open>The exponent \<open>e\<close> of a positive number: \<open>2^e \<le> x < 2^(e+1)\<close>.\<close>

definition ilog2 :: "rat \<Rightarrow> int" where
  "ilog2 x = (if 1 \<le> x then bitlen \<lfloor>x\<rfloor> - 1 else - bitlen (\<lceil>1 / x\<rceil> - 1))"

definition subnormal_exponent :: int where
  "subnormal_exponent = - 1074"

definition round64 :: "rat \<Rightarrow> rat" where
  "round64 x =
     (if x = 0 then 0
      else let u = 2 powi (max (ilog2 \<bar>x\<bar> - 52) subnormal_exponent)
           in sgn x * of_int (round_half_even (\<bar>x\<bar> / u)) * u)"

text \<open>
  The Julian day number of a date text: SQLite counts the milliseconds since noon of
  24 November 4714 BC as an integer and divides by the milliseconds of a day.
\<close>

definition JULIANDAY :: "datetime_text option \<Rightarrow> rat option" where
  "JULIANDAY d =
     (case d of None \<Rightarrow> None
      | Some (DatetimeText secs) \<Rightarrow>
          Some (round64 (of_int (secs * 1000 + 210866760000000) / 86400000)))"

definition sql_sub :: "rat option \<Rightarrow> rat option \<Rightarrow> rat option" where
  "sql_sub a b = (case (a, b) of (Some x, Some y) \<Rightarrow> Some (round64 (x - y)) | _ \<Rightarrow> None)"

definition sql_mul :: "rat option \<Rightarrow> rat \<Rightarrow> rat option" where
  "sql_mul a k = map_option (\<lambda>x. round64 (x * k)) a"

definition sql_cast_real :: "rat option \<Rightarrow> rat option" where
  "sql_cast_real a = a"

definition sql_eq :: "string option \<Rightarrow> string \<Rightarrow> bool option" where
  "sql_eq a t = map_option (\<lambda>s. s = t) a"

definition sql_le :: "rat option \<Rightarrow> rat \<Rightarrow> bool option" where
  "sql_le a k = map_option (\<lambda>x. x \<le> k) a"

definition sql_and :: "bool option \<Rightarrow> bool option \<Rightarrow> bool option" where
  "sql_and a b =
     (if a = Some False \<or> b = Some False then Some False
      else if a = Some True \<and> b = Some True then Some True
      else None)"

definition sql_case :: "bool option \<Rightarrow> 'a \<Rightarrow> 'a \<Rightarrow> 'a" where
  "sql_case c a b = (if c = Some True then a else b)"

definition fact_requests_v_row :: "datetime_text request \<Rightarrow> datetime_text fact_request" where
  "fact_requests_v_row r =
     \<lparr> sr_number = sr_number r, sr_type = sr_type r,
       owner_department = owner_department r, status = status r,
       created_date = created_date r, closed_date = closed_date r,
       ward = ward r, community_area = community_area r,
       resolution_time_h =
         sql_cast_real (sql_mul (sql_sub (JULIANDAY (closed_date r)) (JULIANDAY (created_date r))) 24),
       sla_target_h = 72,
       sla_met =
         sql_case (sql_and (sql_eq (UPPER (status r)) ''COMPLETED'')
                           (sql_le (sql_mul (sql_sub (JULIANDAY (closed_date r))
                                                     (JULIANDAY (created_date r))) 24) 72))
                  1 0,
       open_flag = sql_case (sql_eq (UPPER (status r)) ''COMPLETED'') 0 1 \<rparr>"

text \<open>The view over the staged table \<open>stg_requests\<close>.\<close>

definition fact_requests_v :: "datetime_text request list \<Rightarrow> datetime_text fact_request list" where
  "fact_requests_v stg_requests = map fact_requests_v_row stg_requests"

text \<open>The ELT run on the fetched rows: convert the dates, stage, read the view.\<close>

definition run_elt :: "timestamp request list \<Rightarrow> datetime_text fact_request list" where
  "run_elt df = fact_requests_v (map extract_311_row df)"

section \<open>Loading the fact table (\<open>pipeline_etl.py\<close>)\<close>

text \<open>
  The table \<open>fact_requests\<close> is the list of its rows in the order of their row ids.
  \<open>sr_number TEXT PRIMARY KEY\<close> makes the non-null identifiers unique; SQLite lets a
  primary key that is not an integer be \<open>NULL\<close>, and no two \<open>NULL\<close>s conflict.
  \<open>INSERT OR REPLACE\<close> deletes the row in conflict and appends the new one. A missing
  identifier reaches SQLite as \<open>NaN\<close>, which it stores as \<open>NULL\<close>.
\<close>

type_synonym fact_table = "datetime_text fact_request list"

definition insert_or_replace :: "fact_table \<Rightarrow> datetime_text fact_request \<Rightarrow> fact_table" where
  "insert_or_replace tbl r =
     (case sr_number r of
        None \<Rightarrow> tbl @ [r]
      | Some k \<Rightarrow> filter (\<lambda>x. sr_number x \<noteq> Some k) tbl @ [r])"

text \<open>\<open>ensure_schema\<close>: the table is dropped and created empty.\<close>

definition ensure_schema :: "fact_table \<Rightarrow> fact_table" where
  "ensure_schema conn = []"

text \<open>The record that \<open>load_fact\<close> binds for one row: the two dates as text.\<close>

definition fact_record :: "timestamp fact_request \<Rightarrow> datetime_text fact_request" where
  "fact_record r =
     \<lparr> sr_number = sr_number r, sr_type = sr_type r,
       owner_department = owner_department r, status = status r,
       created_date = map_option strftime (created_date r),
       closed_date = map_option strftime (closed_date r),
       ward = ward r, community_area = community_area r,
       resolution_time_h = resolution_time_h r, sla_target_h = sla_target_h r,
       sla_met = sla_met r, open_flag = open_flag r \<rparr>"

text \<open>
  \<open>load_fact\<close>: \<open>executemany\<close> runs the statement once per row, in order. The frame
  is one that \<open>transform_311\<close> made, so that it has every column modelled here.
\<close>

definition load_fact :: "fact_table \<Rightarrow> timestamp fact_request list \<Rightarrow> fact_table" where
  "load_fact conn df = fold (\<lambda>r tbl. insert_or_replace tbl (fact_record r)) df conn"

text \<open>The ETL run on the fetched rows, from any earlier content of the store.\<close>

definition run_etl :: "fact_table \<Rightarrow> timestamp request list \<Rightarrow> int \<Rightarrow> error + fact_table" where
  "run_etl conn df sla_hours =
     (case transform_311 df sla_hours of
        Inl e \<Rightarrow> Inl e
      | Inr tf \<Rightarrow> Inr (load_fact (ensure_schema conn) tf))"

section \<open>Conditions of the statements\<close>

text \<open>
  The condition \<open>upper(status) = 'COMPLETED'\<close> of the specification, spelled out without
  any function of the code: the status is a text of nine characters, each of them the
  letter of \<open>COMPLETED\<close> at its place, as a capital or as a small letter.
\<close>

definition completed :: "string option \<Rightarrow> bool" where
  "completed st =
     (case st of
        None \<Rightarrow> False
      | Some t \<Rightarrow> list_all2 (\<lambda>c p. c = fst p \<or> c = snd p) t (zip ''COMPLETED'' ''completed''))"

text \<open>
  A date that is missing, or that falls on a whole second and is a count of nanoseconds
  that a pandas \<open>Timestamp\<close> holds in its 64 bits.
\<close>

definition whole_second :: "timestamp option \<Rightarrow> bool" where
  "whole_second t = (case t of None \<Rightarrow> True | Some n \<Rightarrow> n mod 1000000000 = 0)"

definition in_range :: "timestamp option \<Rightarrow> bool" where
  "in_range t =
     (case t of None \<Rightarrow> True
      | Some n \<Rightarrow> - 9223372036854775808 < n \<and> n < 9223372036854775808)"

text \<open>
  The Julian day of a second in steps of \<open>2^-31\<close> day, which is the step of the
  doubles between \<open>2^21\<close> and \<open>2^22\<close>, where the Julian days of all dates of a
  pandas \<open>Timestamp\<close> lie.
\<close>

definition julian_ticks :: "int \<Rightarrow> int" where
  "julian_ticks s =
     round_half_even (of_int (s * 1000 + 210866760000000) / 86400000 * 2147483648)"

text \<open>A name whose capitals are all below 256: it has neither the letter 181 nor 255.\<close>

definition latin1_capitals :: "string \<Rightarrow> bool" where
  "latin1_capitals s = (CHR 0xB5 \<notin> set s \<and> CHR 0xFF \<notin> set s)"

section \<open>Inputs of the closed examples\<close>

text \<open>A fetched row with the given identifier, status and dates; the other columns are fixed.\<close>

definition feed_row :: "string option \<Rightarrow> string option \<Rightarrow> 'ts option \<Rightarrow> 'ts option \<Rightarrow> 'ts request" where
  "feed_row ident st created_ts closed_ts =
     \<lparr> sr_number = ident, sr_type = Some ''Pothole in Street Complaint'',
       owner_department = Some ''CDOT - Department of Transportation'', status = st,
       created_date = created_ts, closed_date = closed_ts,
       ward = Some 27, community_area = Some 8 \<rparr>"

text \<open>Midnight of 1 January 2024 (UTC), in seconds since the epoch.\<close>

definition new_year_2024 :: int where
  "new_year_2024 = 1704067200"

text \<open>
  Three files as \<open>read_csv\<close> sees them: one written with semicolons, one that is not
  valid UTF-8 but reads as Latin-1, and one that no attempt reads.
\<close>

definition two_columns :: dataframe where
  "two_columns = \<lparr> columns = [''AREA_NUMBE'', ''COMMUNITY''],
                   data = [[IntCell 8, Str ''NEAR NORTH SIDE'']] \<rparr>"

definition one_column :: dataframe where
  "one_column = \<lparr> columns = [''AREA_NUMBE;COMMUNITY''], data = [[Str ''8;NEAR NORTH SIDE'']] \<rparr>"

definition semicolon_file :: "string \<Rightarrow> csv_sep \<Rightarrow> encoding \<Rightarrow> error + dataframe" where
  "semicolon_file path sep enc = (case sep of Comma \<Rightarrow> Inr one_column | Semicolon \<Rightarrow> Inr two_columns)"

definition latin1_file :: "string \<Rightarrow> csv_sep \<Rightarrow> encoding \<Rightarrow> error + dataframe" where
  "latin1_file path sep enc = (case enc of Utf8 \<Rightarrow> Inl UnicodeDecodeError | Latin1 \<Rightarrow> Inr two_columns)"

definition unreadable_file :: "string \<Rightarrow> csv_sep \<Rightarrow> encoding \<Rightarrow> error + dataframe" where
  "unreadable_file path sep enc =
     (case enc of Utf8 \<Rightarrow> Inl UnicodeDecodeError
      | Latin1 \<Rightarrow> Inl (OtherError ''ParserError: Error tokenizing data''))"

text \<open>
  An instance of the two pandas parameters for the closed examples: texts that are
  decimal integers are read as numbers, and a float is printed as a whole number with
  one decimal.
\<close>

definition read_integer :: "string \<Rightarrow> number option" where
  "read_integer s = (case py_int s of Inr i \<Rightarrow> Some (Finite (of_int i)) | Inl e \<Rightarrow> None)"

definition print_whole :: "number \<Rightarrow> string" where
  "print_whole x =
     (case x of Finite q \<Rightarrow> str_int \<lfloor>q\<rfloor> @ ''.0'' | PlusInfinity \<Rightarrow> ''inf''
      | MinusInfinity \<Rightarrow> ''-inf'')"

definition pandas_whole :: pandas where
  "pandas_whole = \<lparr> to_numeric_text = read_integer, str_float = print_whole \<rparr>"

text \<open>A frame of the demographics file with the four columns that the scripts select.\<close>

definition acs_frame :: "cell list list \<Rightarrow> dataframe" where
  "acs_frame rows =
     \<lparr> columns = [''Community Area Number'', ''COMMUNITY AREA NAME'', ''PER CAPITA INCOME '',
                   ''HARDSHIP INDEX''],
       data = rows \<rparr>"

text \<open>A fact row with the given identifier, loaded from a request closed after one hour.\<close>

definition loaded_row :: "string option \<Rightarrow> timestamp fact_request" where
  "loaded_row ident =
     transform_311_row 72
       (feed_row ident (Some ''Completed'') (Some (new_year_2024 * 1000000000))
          (Some ((new_year_2024 + 3600) * 1000000000)))"

section \<open>Properties of the KPI derivation\<close>

lemma transform_311_row_fields:
  "resolution_time_h (transform_311_row sla_hours r) = hours_between (closed_date r) (created_date r)"
  "sla_target_h (transform_311_row sla_hours r) = sla_hours"
  "sla_met (transform_311_row sla_hours r) =
     astype_int (eq (str_upper (status r)) ''COMPLETED''
                 \<and> le (hours_between (closed_date r) (created_date r)) sla_hours)"
  "open_flag (transform_311_row sla_hours r) = astype_int (ne (str_upper (status r)) ''COMPLETED'')"
  by (simp_all add: transform_311_row_def Let_def)

lemma fact_requests_v_row_fields:
  "resolution_time_h (fact_requests_v_row s) =
     sql_cast_real (sql_mul (sql_sub (JULIANDAY (closed_date s)) (JULIANDAY (created_date s))) 24)"
  "sla_target_h (fact_requests_v_row s) = 72"
  "sla_met (fact_requests_v_row s) =
     sql_case (sql_and (sql_eq (UPPER (status s)) ''COMPLETED'')
                       (sql_le (sql_mul (sql_sub (JULIANDAY (closed_date s))
                                                 (JULIANDAY (created_date s))) 24) 72)) 1 0"
  "open_flag (fact_requests_v_row s) = sql_case (sql_eq (UPPER (status s)) ''COMPLETED'') 0 1"
  by (simp_all add: fact_requests_v_row_def)

lemma extract_311_row_fields:
  "status (extract_311_row r) = status r"
  "created_date (extract_311_row r) = map_option strftime (created_date r)"
  "closed_date (extract_311_row r) = map_option strftime (closed_date r)"
  "sr_number (extract_311_row r) = sr_number r"
  by (simp_all add: extract_311_row_def)

lemma feed_row_fields:
  "sr_number (feed_row ident st created_ts closed_ts) = ident"
  "status (feed_row ident st created_ts closed_ts) = st"
  "created_date (feed_row ident st created_ts closed_ts) = created_ts"
  "closed_date (feed_row ident st created_ts closed_ts) = closed_ts"
  by (simp_all add: feed_row_def)

lemma upper_Completed: "upper ''Completed'' = ''COMPLETED''"
  by (simp add: upper_def upper_char_def smalls_def capitals_def)

lemma sqlite_upper_Completed: "sqlite_upper ''Completed'' = ''COMPLETED''"
  by (simp add: sqlite_upper_def sqlite_upper_char_def)

lemma sla_met_etl:
  "sla_met (transform_311_row sla_hours r) =
     (if str_upper (status r) = Some ''COMPLETED''
         \<and> (case resolution_time_h (transform_311_row sla_hours r) of
               None \<Rightarrow> False
             | Some h \<Rightarrow> h \<le> of_int (sla_target_h (transform_311_row sla_hours r)))
      then 1 else 0)"
  by (cases "str_upper (status r)")
     (simp_all add: transform_311_row_fields astype_int_def eq_def le_def split: option.splits)

lemma sla_met_elt:
  "sla_met (fact_requests_v_row s) =
     (if UPPER (status s) = Some ''COMPLETED''
         \<and> (case resolution_time_h (fact_requests_v_row s) of
               None \<Rightarrow> False
             | Some h \<Rightarrow> h \<le> of_int (sla_target_h (fact_requests_v_row s)))
      then 1 else 0)"
  by (cases "UPPER (status s)"; cases "closed_date s"; cases "created_date s")
     (auto simp add: fact_requests_v_row_fields sql_case_def sql_and_def sql_eq_def sql_le_def
        sql_cast_real_def sql_mul_def sql_sub_def JULIANDAY_def split: datetime_text.splits)

lemma no_closed_date_etl:
  "closed_date r = None \<Longrightarrow> resolution_time_h (transform_311_row sla_hours r) = None"
  by (simp add: transform_311_row_fields hours_between_def)

lemma no_closed_date_elt:
  "closed_date s = None \<Longrightarrow> resolution_time_h (fact_requests_v_row s) = None"
  by (simp add: fact_requests_v_row_fields sql_cast_real_def sql_mul_def sql_sub_def JULIANDAY_def)

text \<open>
  Claim C2. In both modes \<open>sla_met\<close> is 1 exactly when the upper-cased status is
  \<open>COMPLETED\<close> and the resolution time is defined and at most the row's \<open>sla_target_h\<close>,
  and 0 otherwise. A row without a closed date has no resolution time, and a row without
  a resolution time has \<open>sla_met = 0\<close>. With a target of 72, a completed request resolved
  in 72 hours has \<open>sla_met = 1\<close> and one resolved in 72.01 hours has \<open>sla_met = 0\<close>.
\<close>

theorem sla_met_iff_completed_within_target:
  "sla_met (transform_311_row sla_hours r) =
     (if str_upper (status r) = Some ''COMPLETED''
         \<and> (case resolution_time_h (transform_311_row sla_hours r) of
               None \<Rightarrow> False
             | Some h \<Rightarrow> h \<le> of_int (sla_target_h (transform_311_row sla_hours r)))
      then 1 else 0)
   \<and> sla_met (fact_requests_v_row s) =
     (if UPPER (status s) = Some ''COMPLETED''
         \<and> (case resolution_time_h (fact_requests_v_row s) of
               None \<Rightarrow> False
             | Some h \<Rightarrow> h \<le> of_int (sla_target_h (fact_requests_v_row s)))
      then 1 else 0)
   \<and> (closed_date r = None \<longrightarrow> resolution_time_h (transform_311_row sla_hours r) = None)
   \<and> (closed_date s = None \<longrightarrow> resolution_time_h (fact_requests_v_row s) = None)
   \<and> (resolution_time_h (transform_311_row sla_hours r) = None \<longrightarrow>
        sla_met (transform_311_row sla_hours r) = 0)
   \<and> (resolution_time_h (fact_requests_v_row s) = None \<longrightarrow> sla_met (fact_requests_v_row s) = 0)
   \<and> (str_upper (status r) = Some ''COMPLETED'' \<and> sla_hours = 72 \<longrightarrow>
        (resolution_time_h (transform_311_row sla_hours r) = Some 72 \<longrightarrow>
           sla_met (transform_311_row sla_hours r) = 1)
        \<and> (resolution_time_h (transform_311_row sla_hours r) = Some (7201 / 100) \<longrightarrow>
           sla_met (transform_311_row sla_hours r) = 0))
   \<and> (UPPER (status s) = Some ''COMPLETED'' \<longrightarrow>
        (resolution_time_h (fact_requests_v_row s) = Some 72 \<longrightarrow>
           sla_met (fact_requests_v_row s) = 1)
        \<and> (resolution_time_h (fact_requests_v_row s) = Some (7201 / 100) \<longrightarrow>
           sla_met (fact_requests_v_row s) = 0))"
proof -
  note etl = sla_met_etl [of sla_hours r] and elt = sla_met_elt [of s]
  have target: "sla_target_h (transform_311_row sla_hours r) = sla_hours"
    "sla_target_h (fact_requests_v_row s) = 72"
    by (simp_all add: transform_311_row_fields fact_requests_v_row_fields)
  have "resolution_time_h (transform_311_row sla_hours r) = None \<longrightarrow>
          sla_met (transform_311_row sla_hours r) = 0"
    using etl by simp
  moreover have "resolution_time_h (fact_requests_v_row s) = None \<longrightarrow>
          sla_met (fact_requests_v_row s) = 0"
    using elt by simp
  moreover have "str_upper (status r) = Some ''COMPLETED'' \<and> sla_hours = 72 \<longrightarrow>
        (resolution_time_h (transform_311_row sla_hours r) = Some 72 \<longrightarrow>
           sla_met (transform_311_row sla_hours r) = 1)
        \<and> (resolution_time_h (transform_311_row sla_hours r) = Some (7201 / 100) \<longrightarrow>
           sla_met (transform_311_row sla_hours r) = 0)"
    using etl target(1) by auto
  moreover have "UPPER (status s) = Some ''COMPLETED'' \<longrightarrow>
        (resolution_time_h (fact_requests_v_row s) = Some 72 \<longrightarrow>
           sla_met (fact_requests_v_row s) = 1)
        \<and> (resolution_time_h (fact_requests_v_row s) = Some (7201 / 100) \<longrightarrow>
           sla_met (fact_requests_v_row s) = 0)"
    using elt target(2) by auto
  ultimately show ?thesis
    using etl elt no_closed_date_etl [of r sla_hours] no_closed_date_elt [of s] by blast
qed

text \<open>The hours of the view between midnight of 1 January 2024 and four later instants.\<close>

lemma view_hours_1:
  "sql_mul (sql_sub (JULIANDAY (Some (DatetimeText (new_year_2024 + 3600))))
                    (JULIANDAY (Some (DatetimeText new_year_2024)))) 24
     = Some (268435455 / 268435456)"
  by code_simp

lemma view_hours_60:
  "sql_mul (sql_sub (JULIANDAY (Some (DatetimeText (new_year_2024 + 216000))))
                    (JULIANDAY (Some (DatetimeText new_year_2024)))) 24 = Some 60"
  by code_simp

lemma view_hours_72:
  "sql_mul (sql_sub (JULIANDAY (Some (DatetimeText (new_year_2024 + 259200))))
                    (JULIANDAY (Some (DatetimeText new_year_2024)))) 24 = Some 72"
  by code_simp

lemma view_hours_7201:
  "sql_mul (sql_sub (JULIANDAY (Some (DatetimeText (new_year_2024 + 259236))))
                    (JULIANDAY (Some (DatetimeText new_year_2024)))) 24
     = Some (19330037187 / 268435456)"
  by code_simp

theorem sla_met_iff_completed_within_target_witness:
  "sla_met (transform_311_row 72
      (feed_row (Some ''SR24-00000001'') (Some ''Completed'')
         (Some (new_year_2024 * 1000000000)) (Some ((new_year_2024 + 259200) * 1000000000)))) = 1
   \<and> sla_met (transform_311_row 72
      (feed_row (Some ''SR24-00000002'') (Some ''Completed'')
         (Some (new_year_2024 * 1000000000)) (Some ((new_year_2024 + 259236) * 1000000000)))) = 0
   \<and> sla_met (transform_311_row 72
      (feed_row (Some ''SR24-00000003'') (Some ''Open'')
         (Some (new_year_2024 * 1000000000)) None)) = 0
   \<and> sla_met (fact_requests_v_row
      (feed_row (Some ''SR24-00000001'') (Some ''Completed'')
         (Some (DatetimeText new_year_2024)) (Some (DatetimeText (new_year_2024 + 259200))))) = 1
   \<and> sla_met (fact_requests_v_row
      (feed_row (Some ''SR24-00000002'') (Some ''Completed'')
         (Some (DatetimeText new_year_2024)) (Some (DatetimeText (new_year_2024 + 259236))))) = 0
   \<and> sla_met (fact_requests_v_row
      (feed_row (Some ''SR24-00000003'') (Some ''Open'')
         (Some (DatetimeText new_year_2024)) None)) = 0"
proof -
  let ?r1 = "feed_row (Some ''SR24-00000001'') (Some ''Completed'')
         (Some (new_year_2024 * 1000000000)) (Some ((new_year_2024 + 259200) * 1000000000))"
  let ?r2 = "feed_row (Some ''SR24-00000002'') (Some ''Completed'')
         (Some (new_year_2024 * 1000000000)) (Some ((new_year_2024 + 259236) * 1000000000))"
  let ?r3 = "feed_row (Some ''SR24-00000003'') (Some ''Open'')
         (Some (new_year_2024 * 1000000000)) (None :: timestamp option)"
  let ?s1 = "feed_row (Some ''SR24-00000001'') (Some ''Completed'')
         (Some (DatetimeText new_year_2024)) (Some (DatetimeText (new_year_2024 + 259200)))"
  let ?s2 = "feed_row (Some ''SR24-00000002'') (Some ''Completed'')
         (Some (DatetimeText new_year_2024)) (Some (DatetimeText (new_year_2024 + 259236)))"
  let ?s3 = "feed_row (Some ''SR24-00000003'') (Some ''Open'')
         (Some (DatetimeText new_year_2024)) (None :: datetime_text option)"
  have st: "str_upper (status ?r1) = Some ''COMPLETED''" "str_upper (status ?r2) = Some ''COMPLETED''"
    "UPPER (status ?s1) = Some ''COMPLETED''" "UPPER (status ?s2) = Some ''COMPLETED''"
    by (simp_all add: feed_row_fields str_upper_def UPPER_def upper_Completed
          sqlite_upper_Completed)
  have res: "resolution_time_h (transform_311_row 72 ?r1) = Some 72"
    "resolution_time_h (transform_311_row 72 ?r2) = Some (7201 / 100)"
    by (simp_all add: transform_311_row_fields feed_row_fields hours_between_def new_year_2024_def)
  have res_v: "resolution_time_h (fact_requests_v_row ?s1) = Some 72"
    "resolution_time_h (fact_requests_v_row ?s2) = Some (19330037187 / 268435456)"
    by (simp_all add: fact_requests_v_row_fields feed_row_fields sql_cast_real_def
          view_hours_72 view_hours_7201)
  have cl: "closed_date ?r3 = None" "closed_date ?s3 = None"
    by (simp_all add: feed_row_fields)
  from sla_met_iff_completed_within_target [of 72 ?r1 ?s1] st res res_v
  have a: "sla_met (transform_311_row 72 ?r1) = 1" "sla_met (fact_requests_v_row ?s1) = 1"
    by blast+
  from sla_met_iff_completed_within_target [of 72 ?r2 ?s2] st res
  have b: "sla_met (transform_311_row 72 ?r2) = 0"
    by blast
  from sla_met_iff_completed_within_target [of 72 ?r2 ?s2]
  have "sla_met (fact_requests_v_row ?s2) =
     (if UPPER (status ?s2) = Some ''COMPLETED''
         \<and> (case resolution_time_h (fact_requests_v_row ?s2) of
               None \<Rightarrow> False
             | Some h \<Rightarrow> h \<le> of_int (sla_target_h (fact_requests_v_row ?s2)))
      then 1 else 0)"
    by blast
  then have b': "sla_met (fact_requests_v_row ?s2) = 0"
    by (simp add: res_v fact_requests_v_row_fields(2))
  from sla_met_iff_completed_within_target [of 72 ?r3 ?s3] cl
  have c: "sla_met (transform_311_row 72 ?r3) = 0" "sla_met (fact_requests_v_row ?s3) = 0"
    by blast+
  from a b b' c show ?thesis by blast
qed

lemma sqlite_upper_char_letters:
  "sqlite_upper_char c = CHR ''C'' \<longleftrightarrow> c = CHR ''C'' \<or> c = CHR ''c''"
  "sqlite_upper_char c = CHR ''O'' \<longleftrightarrow> c = CHR ''O'' \<or> c = CHR ''o''"
  "sqlite_upper_char c = CHR ''M'' \<longleftrightarrow> c = CHR ''M'' \<or> c = CHR ''m''"
  "sqlite_upper_char c = CHR ''P'' \<longleftrightarrow> c = CHR ''P'' \<or> c = CHR ''p''"
  "sqlite_upper_char c = CHR ''L'' \<longleftrightarrow> c = CHR ''L'' \<or> c = CHR ''l''"
  "sqlite_upper_char c = CHR ''E'' \<longleftrightarrow> c = CHR ''E'' \<or> c = CHR ''e''"
  "sqlite_upper_char c = CHR ''T'' \<longleftrightarrow> c = CHR ''T'' \<or> c = CHR ''t''"
  "sqlite_upper_char c = CHR ''D'' \<longleftrightarrow> c = CHR ''D'' \<or> c = CHR ''d''"
  by (auto simp: sqlite_upper_char_def split: if_splits)

lemma upper_char_letters:
  "upper_char c = CHR ''C'' \<longleftrightarrow> c = CHR ''C'' \<or> c = CHR ''c''"
  "upper_char c = CHR ''O'' \<longleftrightarrow> c = CHR ''O'' \<or> c = CHR ''o''"
  "upper_char c = CHR ''M'' \<longleftrightarrow> c = CHR ''M'' \<or> c = CHR ''m''"
  "upper_char c = CHR ''P'' \<longleftrightarrow> c = CHR ''P'' \<or> c = CHR ''p''"
  "upper_char c = CHR ''L'' \<longleftrightarrow> c = CHR ''L'' \<or> c = CHR ''l''"
  "upper_char c = CHR ''E'' \<longleftrightarrow> c = CHR ''E'' \<or> c = CHR ''e''"
  "upper_char c = CHR ''T'' \<longleftrightarrow> c = CHR ''T'' \<or> c = CHR ''t''"
  "upper_char c = CHR ''D'' \<longleftrightarrow> c = CHR ''D'' \<or> c = CHR ''d''"
  by (auto simp: upper_char_def smalls_def capitals_def split: if_splits)

lemma map_eq_list_all2: "map f xs = ys \<longleftrightarrow> list_all2 (\<lambda>x y. f x = y) xs ys"
  by (induction xs arbitrary: ys) (auto simp: list_all2_Cons1)

lemma completed_sqlite_upper: "sqlite_upper t = ''COMPLETED'' \<longleftrightarrow> completed (Some t)"
  by (simp add: sqlite_upper_def map_eq_list_all2 completed_def list_all2_Cons2
        sqlite_upper_char_letters)

lemma upper_without_sharp_s: "CHR 0xDF \<notin> set t \<Longrightarrow> upper t = map upper_char t"
  by (induction t) (auto simp: upper_def)

lemma upper_with_sharp_s: "CHR 0xDF \<in> set t \<Longrightarrow> CHR ''S'' \<in> set (upper t)"
  by (auto simp: upper_def)

lemma completed_no_sharp_s: "completed (Some t) \<Longrightarrow> CHR 0xDF \<notin> set t"
  by (auto simp: completed_def list_all2_Cons2)

lemma completed_upper: "upper t = ''COMPLETED'' \<longleftrightarrow> completed (Some t)"
proof
  assume u: "upper t = ''COMPLETED''"
  have "CHR 0xDF \<notin> set t"
  proof
    assume "CHR 0xDF \<in> set t"
    from upper_with_sharp_s [OF this] u show False by simp
  qed
  from upper_without_sharp_s [OF this] u have "map upper_char t = ''COMPLETED''" by simp
  then show "completed (Some t)"
    by (simp add: map_eq_list_all2 completed_def list_all2_Cons2 upper_char_letters)
next
  assume c: "completed (Some t)"
  then have "map upper_char t = ''COMPLETED''"
    by (simp add: map_eq_list_all2 completed_def list_all2_Cons2 upper_char_letters)
  with upper_without_sharp_s [OF completed_no_sharp_s [OF c]] show "upper t = ''COMPLETED''"
    by simp
qed

lemma completed_str_upper: "str_upper st = Some ''COMPLETED'' \<longleftrightarrow> completed st"
  by (cases st) (simp_all add: str_upper_def completed_upper, simp add: completed_def)

lemma completed_UPPER: "UPPER st = Some ''COMPLETED'' \<longleftrightarrow> completed st"
  by (cases st) (simp_all add: UPPER_def completed_sqlite_upper, simp add: completed_def)

lemma transform_311_rows:
  "transform_311 df sla_hours = Inr out \<Longrightarrow> out = map (transform_311_row sla_hours) df"
  by (simp add: transform_311_def split: if_splits)


lemma run_elt_rows: "run_elt df = map (\<lambda>r. fact_requests_v_row (extract_311_row r)) df"
  by (simp add: run_elt_def fact_requests_v_def)

text \<open>
  Claim C3. In both modes \<open>open_flag\<close> is 1 exactly when the status is not
  \<open>COMPLETED\<close> in some spelling of capitals and small letters (a missing status
  included), and 0 exactly when it is. The rows of the ETL frame and of the ELT view are
  made row by row in this way; the ELT conversion of the dates leaves the status alone.
\<close>

theorem open_flag_iff_not_completed:
  "(open_flag (transform_311_row sla_hours r) = 1 \<longleftrightarrow> \<not> completed (status r))
   \<and> (open_flag (transform_311_row sla_hours r) = 0 \<longleftrightarrow> completed (status r))
   \<and> (open_flag (fact_requests_v_row s) = 1 \<longleftrightarrow> \<not> completed (status s))
   \<and> (open_flag (fact_requests_v_row s) = 0 \<longleftrightarrow> completed (status s))
   \<and> (transform_311 df sla_hours = Inr out \<longrightarrow> out = map (transform_311_row sla_hours) df)
   \<and> run_elt df = map (\<lambda>r. fact_requests_v_row (extract_311_row r)) df
   \<and> status (extract_311_row r) = status r"
proof -
  have etl: "open_flag (transform_311_row sla_hours r) = (if completed (status r) then 0 else 1)"
    using completed_str_upper [of "status r"]
    by (cases "str_upper (status r)")
       (auto simp: transform_311_row_fields astype_int_def ne_def)
  have elt: "open_flag (fact_requests_v_row s) = (if completed (status s) then 0 else 1)"
    using completed_UPPER [of "status s"]
    by (cases "UPPER (status s)")
       (auto simp: fact_requests_v_row_fields sql_case_def sql_eq_def)
  from etl elt transform_311_rows [of df sla_hours out] run_elt_rows [of df]
    extract_311_row_fields(1) [of r]
  show ?thesis by simp
qed

theorem open_flag_iff_not_completed_witness:
  "open_flag (transform_311_row 72
      (feed_row (Some ''SR24-00000001'') (Some ''Completed'')
         (Some (new_year_2024 * 1000000000)) (Some ((new_year_2024 + 3600) * 1000000000)))) = 0
   \<and> open_flag (transform_311_row 72
      (feed_row (Some ''SR24-00000003'') (Some ''Open'')
         (Some (new_year_2024 * 1000000000)) None)) = 1
   \<and> open_flag (fact_requests_v_row
      (feed_row (Some ''SR24-00000001'') (Some ''Completed'')
         (Some (DatetimeText new_year_2024)) (Some (DatetimeText (new_year_2024 + 3600))))) = 0
   \<and> open_flag (fact_requests_v_row
      (feed_row (Some ''SR24-00000003'') (Some ''Open'')
         (Some (DatetimeText new_year_2024)) None)) = 1"
proof -
  let ?r1 = "feed_row (Some ''SR24-00000001'') (Some ''Completed'')
         (Some (new_year_2024 * 1000000000)) (Some ((new_year_2024 + 3600) * 1000000000))"
  let ?r3 = "feed_row (Some ''SR24-00000003'') (Some ''Open'')
         (Some (new_year_2024 * 1000000000)) (None :: timestamp option)"
  let ?s1 = "feed_row (Some ''SR24-00000001'') (Some ''Completed'')
         (Some (DatetimeText new_year_2024)) (Some (DatetimeText (new_year_2024 + 3600)))"
  let ?s3 = "feed_row (Some ''SR24-00000003'') (Some ''Open'')
         (Some (DatetimeText new_year_2024)) (None :: datetime_text option)"
  have yes: "completed (status ?r1)" "completed (status ?s1)"
    by (simp_all add: feed_row_fields completed_def)
  have no: "\<not> completed (status ?r3)" "\<not> completed (status ?s3)"
    by (simp_all add: feed_row_fields completed_def)
  from open_flag_iff_not_completed [of 72 ?r1 ?s1] yes
  have a: "open_flag (transform_311_row 72 ?r1) = 0" "open_flag (fact_requests_v_row ?s1) = 0"
    by blast+
  from open_flag_iff_not_completed [of 72 ?r3 ?s3] no
  have b: "open_flag (transform_311_row 72 ?r3) = 1" "open_flag (fact_requests_v_row ?s3) = 1"
    by blast+
  from a b show ?thesis by blast
qed




section \<open>Properties of the run configuration\<close>

lemma SLA_HOURS_default: "SLA_HOURS None = Inr 72"
  by (simp add: SLA_HOURS_def py_int_def getenv_def strip_int_def is_int_space_def is_digit_def
        digits_value_def digit_val_def)

lemma transform_311_stores_sla_hours:
  "transform_311 df sla_hours = Inr out \<Longrightarrow> list_all (\<lambda>row. sla_target_h row = sla_hours) out"
  by (auto simp: transform_311_def list_all_iff transform_311_row_fields split: if_splits)

text \<open>
  Claim C4 at the failing input \<open>SLA_HOURS=48\<close>. The ETL script reads 48 and its rows
  store and use 48: a completed request resolved in 60 hours misses the target. The view
  of the ELT script stores 72 and compares against 72, so the same request meets it.
\<close>

theorem sla_hours_ignored_by_view:
  "SLA_HOURS (Some ''48'') = Inr 48
   \<and> sla_target_h (transform_311_row 48
        (feed_row (Some ''SR24-00000006'') (Some ''Completed'')
           (Some (new_year_2024 * 1000000000)) (Some ((new_year_2024 + 216000) * 1000000000)))) = 48
   \<and> sla_met (transform_311_row 48
        (feed_row (Some ''SR24-00000006'') (Some ''Completed'')
           (Some (new_year_2024 * 1000000000)) (Some ((new_year_2024 + 216000) * 1000000000)))) = 0
   \<and> sla_target_h (fact_requests_v_row (extract_311_row
        (feed_row (Some ''SR24-00000006'') (Some ''Completed'')
           (Some (new_year_2024 * 1000000000)) (Some ((new_year_2024 + 216000) * 1000000000))))) = 72
   \<and> sla_met (fact_requests_v_row (extract_311_row
        (feed_row (Some ''SR24-00000006'') (Some ''Completed'')
           (Some (new_year_2024 * 1000000000)) (Some ((new_year_2024 + 216000) * 1000000000))))) = 1"
proof -
  have "SLA_HOURS (Some ''48'') = Inr 48"
    by (simp add: SLA_HOURS_def py_int_def getenv_def strip_int_def is_int_space_def is_digit_def
          digits_value_def digit_val_def)
  moreover have "map_option strftime (Some ((new_year_2024 + 216000) * 1000000000))
                   = Some (DatetimeText (new_year_2024 + 216000))"
    "map_option strftime (Some (new_year_2024 * 1000000000)) = Some (DatetimeText new_year_2024)"
    by (simp_all add: strftime_def)
  ultimately show ?thesis
    by (simp add: transform_311_row_fields fact_requests_v_row_fields extract_311_row_fields
        feed_row_fields hours_between_def view_hours_60 sql_cast_real_def
        sql_case_def sql_and_def sql_eq_def sql_le_def
        astype_int_def eq_def le_def str_upper_def UPPER_def upper_Completed
        sqlite_upper_Completed)
qed

end
